theory Spec2Isabelle
  imports Main "HOL-Library.Word"
begin

section \<open>Values of the Go program\<close>

text \<open>
  Go's \<open>int\<close> on the 64-bit platforms the package is built for is a 64-bit two's
  complement integer; \<open>time.Duration\<close> is an \<open>int64\<close> count of nanoseconds; the entries of
  \<open>runtime.MemStats.PauseNs\<close> are \<open>uint64\<close>. All three are \<open>64 word\<close>: a conversion
  between \<open>int64\<close> and \<open>uint64\<close> keeps the bits, and only the comparison that reads
  the word says whether it is signed (\<open>word_sless\<close>) or unsigned (\<open><\<close>).
\<close>

type_synonym go_int = "64 word"
type_synonym uint64 = "64 word"
type_synonym Duration = "64 word"

definition Second :: Duration where
  "Second = 1000000000"

text \<open>\<open>Duration.Nanoseconds\<close> returns the duration as an \<open>int64\<close>.\<close>

definition Nanoseconds :: "Duration \<Rightarrow> 64 word" where
  "Nanoseconds d = d"

subsection \<open>Contexts\<close>

text \<open>
  A \<open>context.Context\<close> as the work running under it can observe it: an optional
  deadline (a point on the clock, in nanoseconds) and whether it has been cancelled.
  \<open>context.Background()\<close> has no deadline and is never cancelled;
  \<open>context.WithTimeout(parent, d)\<close> is \<open>WithDeadline(parent, now + d)\<close>, whose deadline is
  the earlier of the parent's and the new one and which is cancelled with its parent.
\<close>

record Context =
  deadline :: "int option"
  canceled :: bool

definition Background :: Context where
  "Background = \<lparr>deadline = None, canceled = False\<rparr>"

definition context_WithTimeout :: "Context \<Rightarrow> int \<Rightarrow> Duration \<Rightarrow> Context" where
  "context_WithTimeout parent now timeout =
     (let d = now + sint timeout in
      \<lparr>deadline = (case deadline parent of None \<Rightarrow> Some d | Some cur \<Rightarrow> Some (min cur d)),
       canceled = canceled parent\<rparr>)"

definition Done :: "Context \<Rightarrow> int \<Rightarrow> bool" where
  "Done c now = (canceled c \<or> (case deadline c of None \<Rightarrow> False | Some d \<Rightarrow> d \<le> now))"

subsection \<open>Errors\<close>

text \<open>
  A Go \<open>error\<close> is \<open>nil\<close> (\<open>None\<close>) or an error value. The package builds its own errors
  with \<open>fmt.Errorf(format, args...)\<close>; every other error comes back from a collaborator
  (\<open>database/sql\<close>, \<open>net\<close>) and is passed on unchanged.
\<close>

datatype fmt_arg = ArgInt go_int | ArgDuration Duration

datatype error = Errorf string "fmt_arg list" | Foreign string

subsection \<open>The world a check runs in\<close>

text \<open>
  What the checks read from outside the package: the clock, the runtime's goroutine
  count and recent GC pauses, and the two collaborators that take a context. A
  \<open>*sql.DB\<close> is a handle or \<open>nil\<close> (\<open>None\<close>).
\<close>

type_synonym sql_DB = nat

record world =
  time_Now :: int
  runtime_NumGoroutine :: go_int
  runtime_PauseNs :: "uint64 list"
  sql_PingContext :: "sql_DB \<Rightarrow> Context \<Rightarrow> error option"
  net_LookupHost :: "Context \<Rightarrow> string \<Rightarrow> string list \<times> error option"

text \<open>
  A check returns its error together with the calls it made to collaborators, each
  with the context it was given.
\<close>

datatype effect = PingContext_call sql_DB Context | LookupHost_call Context string

type_synonym CheckFunc = "Context \<Rightarrow> world \<Rightarrow> error option \<times> effect list"

section \<open>health.go: the checks\<close>

definition DatabasePingCheck :: "sql_DB option \<Rightarrow> Duration \<Rightarrow> CheckFunc" where
  "DatabasePingCheck database timeout = (\<lambda>ctx w.
     let ctx' = context_WithTimeout Background (time_Now w) timeout in
     case database of
       None \<Rightarrow> (Some (Errorf ''database is nil'' []), [])
     | Some db \<Rightarrow> (sql_PingContext w db ctx', [PingContext_call db ctx']))"

definition DNSResolveCheck :: "string \<Rightarrow> Duration \<Rightarrow> CheckFunc" where
  "DNSResolveCheck host timeout = (\<lambda>ctx w.
     let ctx' = context_WithTimeout Background (time_Now w) timeout;
         r = net_LookupHost w ctx' host
     in (case snd r of
           Some err \<Rightarrow> Some err
         | None \<Rightarrow> if length (fst r) < 1 then Some (Errorf ''could not resolve host'' [])
                   else None,
         [LookupHost_call ctx' host]))"

definition GoroutineCountCheck :: "go_int \<Rightarrow> CheckFunc" where
  "GoroutineCountCheck threshold = (\<lambda>ctx w.
     let count = runtime_NumGoroutine w in
     if word_sless threshold count
     then (Some (Errorf ''too many goroutines (%d > %d)'' [ArgInt count, ArgInt threshold]), [])
     else (None, []))"

text \<open>The \<open>for _, pause := range stats.PauseNs\<close> loop of \<open>GCMaxPauseCheck\<close>.\<close>

fun pause_loop :: "uint64 list \<Rightarrow> uint64 \<Rightarrow> Duration \<Rightarrow> error option" where
  "pause_loop [] thresholdNanoseconds threshold = None"
| "pause_loop (pause # rest) thresholdNanoseconds threshold =
     (if thresholdNanoseconds < pause
      then Some (Errorf ''recent GC cycle took %s > %s'' [ArgDuration pause, ArgDuration threshold])
      else pause_loop rest thresholdNanoseconds threshold)"

definition GCMaxPauseCheck :: "Duration \<Rightarrow> CheckFunc" where
  "GCMaxPauseCheck threshold =
     (let thresholdNanoseconds = Nanoseconds threshold in
      (\<lambda>ctx w. (pause_loop (runtime_PauseNs w) thresholdNanoseconds threshold, [])))"

section \<open>The configuration of the checker\<close>

subsection \<open>The options of the health library\<close>

text \<open>
  The package configures the checker of \<open>github.com/alexliesenfeld/health\<close> through
  option values. An option is recorded here by the library function that built it and
  the arguments the package passed; what the library does with an option is not part
  of this package.
\<close>

record health_CheckerState =
  Status :: string

record health_Check =
  Name :: string
  Timeout :: Duration
  Check :: CheckFunc

datatype CheckerOption =
    health_WithCacheDuration Duration
  | health_WithTimeout Duration
  | health_WithCheck health_Check
  | health_WithStatusListener "Context \<Rightarrow> health_CheckerState \<Rightarrow> string list \<Rightarrow> string list"

subsection \<open>Slices and the store\<close>

text \<open>
  \<open>checkers\<close> is a Go slice: a pointer to a backing array, a length and a capacity.
  Backing arrays live in the store, addressed by their index; a cell holds an option
  or \<open>nil\<close> (\<open>None\<close>), the zero value of the function type \<open>health.CheckerOption\<close>.
  The store also holds what the package has printed to standard output.
\<close>

record slice =
  slice_ptr :: nat
  slice_len :: nat
  slice_cap :: nat

record store =
  arrays :: "CheckerOption option list list"
  stdout :: "string list"

text \<open>\<open>make([]T, n, c)\<close>: a fresh zeroed array of \<open>c\<close> cells.\<close>

definition make_slice :: "nat \<Rightarrow> nat \<Rightarrow> store \<Rightarrow> slice \<times> store" where
  "make_slice n c st =
     (\<lparr>slice_ptr = length (arrays st), slice_len = n, slice_cap = c\<rparr>,
      st\<lparr>arrays := arrays st @ [replicate c None]\<rparr>)"

text \<open>
  \<open>append(s, x)\<close>: with spare capacity the element is written into the backing array
  in place, right after the slice's last element; otherwise the elements are copied to
  a fresh, larger array. The runtime picks the new capacity; doubling is its rule for
  small slices.
\<close>

definition growcap :: "nat \<Rightarrow> nat \<Rightarrow> nat" where
  "growcap old needed = max needed (2 * old)"

definition append_slice :: "slice \<Rightarrow> CheckerOption \<Rightarrow> store \<Rightarrow> slice \<times> store" where
  "append_slice s x st =
     (if slice_len s < slice_cap s
      then (s\<lparr>slice_len := slice_len s + 1\<rparr>,
            st\<lparr>arrays := (arrays st)[slice_ptr s :=
                    (arrays st ! slice_ptr s)[slice_len s := Some x]]\<rparr>)
      else let c = growcap (slice_cap s) (slice_len s + 1);
               a = take (slice_len s) (arrays st ! slice_ptr s) @ Some x #
                     replicate (c - (slice_len s + 1)) None
           in (\<lparr>slice_ptr = length (arrays st), slice_len = slice_len s + 1, slice_cap = c\<rparr>,
               st\<lparr>arrays := arrays st @ [a]\<rparr>))"

text \<open>The elements a slice shows in a store.\<close>

definition slice_elems :: "store \<Rightarrow> slice \<Rightarrow> CheckerOption option list" where
  "slice_elems st s = take (slice_len s) (arrays st ! slice_ptr s)"

text \<open>A slice is well formed in a store when its array exists and has its capacity.\<close>

definition wf_slice :: "store \<Rightarrow> slice \<Rightarrow> bool" where
  "wf_slice st s =
     (slice_ptr s < length (arrays st) \<and> slice_len s \<le> slice_cap s \<and>
      length (arrays st ! slice_ptr s) = slice_cap s)"

text \<open>
  A slice \<open>s\<close> is behind \<open>s0\<close> when an append to \<open>s\<close> cannot write into a cell that
  \<open>s0\<close> shows: it has another backing array, or it is at least as long.
\<close>

definition behind :: "slice \<Rightarrow> slice \<Rightarrow> bool" where
  "behind s0 s = (slice_ptr s \<noteq> slice_ptr s0 \<or> slice_len s0 \<le> slice_len s)"

subsection \<open>AndictlCheckerConfig\<close>

record AndictlCheckerConfig =
  checkers :: slice

text \<open>
  \<open>AddCheck\<close> and \<open>AddDatabaseCheck\<close> have a pointer receiver: they update the
  configuration variable and the store. Neither returns an error nor panics.
\<close>

definition AddCheck ::
  "CheckerOption \<Rightarrow> AndictlCheckerConfig \<times> store \<Rightarrow> AndictlCheckerConfig \<times> store" where
  "AddCheck check = (\<lambda>(c, st).
     let (s, st') = append_slice (checkers c) check st in (c\<lparr>checkers := s\<rparr>, st'))"

text \<open>The status listener of \<open>InitChecker\<close> writes one line to the log.\<close>

definition status_listener :: "Context \<Rightarrow> health_CheckerState \<Rightarrow> string list \<Rightarrow> string list" where
  "status_listener ctx state lg = lg @ [''health status changed to '' @ Status state]"

definition InitChecker :: "store \<Rightarrow> AndictlCheckerConfig \<times> store" where
  "InitChecker st =
     (let (s, st0) = make_slice 0 10 st;
          config = (\<lparr>checkers = s\<rparr>, st0);
          config = AddCheck (health_WithCacheDuration (1 * Second)) config;
          config = AddCheck (health_WithTimeout (10 * Second)) config;
          config = AddCheck (health_WithCheck
                     \<lparr>Name = ''goroutine-threshold'', Timeout = 2 * Second,
                      Check = GoroutineCountCheck 100\<rparr>) config;
          config = AddCheck (health_WithStatusListener status_listener) config
      in config)"

definition AddDatabaseCheck ::
  "sql_DB option \<Rightarrow> AndictlCheckerConfig \<times> store \<Rightarrow> AndictlCheckerConfig \<times> store" where
  "AddDatabaseCheck db = (\<lambda>(c, st).
     let check = health_WithCheck
                   \<lparr>Name = ''database'', Timeout = 2 * Second,
                    Check = DatabasePingCheck db (1 * Second)\<rparr>;
         st' = st\<lparr>stdout := stdout st @ [''Check database health'']\<rparr>
     in AddCheck check (c, st'))"

text \<open>
  \<open>GetCheckerHandler\<close> has a value receiver and passes \<open>c.checkers...\<close> to the library:
  a variadic call with a slice hands over that very slice, not a copy of its elements.
  The handler is modelled by the slice it was built from, the most it can share with
  the configuration; \<open>handler_options\<close> is what that slice shows in a store.
\<close>

record handler =
  options :: slice

definition GetCheckerHandler :: "AndictlCheckerConfig \<Rightarrow> handler" where
  "GetCheckerHandler c = \<lparr>options = checkers c\<rparr>"

definition handler_options :: "store \<Rightarrow> handler \<Rightarrow> CheckerOption option list" where
  "handler_options st h = slice_elems st (options h)"

text \<open>The options a configuration holds, and the names of the checks among them.\<close>

definition config_options :: "AndictlCheckerConfig \<times> store \<Rightarrow> CheckerOption option list" where
  "config_options = (\<lambda>(c, st). slice_elems st (checkers c))"

fun check_names :: "CheckerOption option list \<Rightarrow> string list" where
  "check_names [] = []"
| "check_names (Some (health_WithCheck c) # xs) = Name c # check_names xs"
| "check_names (x # xs) = check_names xs"

text \<open>A run of setup calls on one configuration, in order.\<close>

datatype setup_call = AddCheck_call CheckerOption | AddDatabaseCheck_call "sql_DB option"

fun run_setup ::
  "setup_call list \<Rightarrow> AndictlCheckerConfig \<times> store \<Rightarrow> AndictlCheckerConfig \<times> store" where
  "run_setup [] cs = cs"
| "run_setup (AddCheck_call check # calls) cs = run_setup calls (AddCheck check cs)"
| "run_setup (AddDatabaseCheck_call db # calls) cs = run_setup calls (AddDatabaseCheck db cs)"

subsection \<open>Concrete inputs\<close>

text \<open>
  A world whose collaborators honour the context they are given: the ping and the lookup
  fail when that context is done at the time of the call and succeed otherwise. Of the
  256 recorded GC pauses one is not zero: a quarter of a millisecond.
\<close>

definition example_world :: world where
  "example_world =
     \<lparr>time_Now = 5, runtime_NumGoroutine = 1, runtime_PauseNs = 250000 # replicate 255 0,
      sql_PingContext = (\<lambda>db c. if Done c 5 then Some (Foreign ''context canceled'') else None),
      net_LookupHost = (\<lambda>c h. if Done c 5 then ([], Some (Foreign ''context canceled''))
                                else ([''127.0.0.1''], None))\<rparr>"

definition empty_store :: store where
  "empty_store = \<lparr>arrays = [], stdout = []\<rparr>"

section \<open>Properties of the checks\<close>

text \<open>
  C8. For every threshold and every current goroutine count, the check that
  \<open>GoroutineCountCheck\<close> returns succeeds (returns the nil error) exactly when the count
  is at most the threshold, both read as signed integers; a count equal to the
  threshold passes, and a failing check carries the count and the threshold.
\<close>

theorem GoroutineCountCheck_succeeds_iff:
  "(fst (GoroutineCountCheck t ctx w) = None) = (sint (runtime_NumGoroutine w) \<le> sint t)
   \<and> (fst (GoroutineCountCheck t ctx (w\<lparr>runtime_NumGoroutine := t\<rparr>)) = None)
   \<and> (fst (GoroutineCountCheck t ctx w) = None
        \<or> fst (GoroutineCountCheck t ctx w) =
            Some (Errorf ''too many goroutines (%d > %d)'' [ArgInt (runtime_NumGoroutine w), ArgInt t]))"
  by (simp add: GoroutineCountCheck_def Let_def word_sless_alt not_less)

subsection \<open>The GC pause threshold\<close>

lemma uint_of_negative:
  fixes t :: "64 word"
  assumes "sint t < 0"
  shows "uint t = 2 ^ 64 + sint t"
proof -
  have lo: "- (2 ^ 63) \<le> sint t"
    using sint_ge [of t] by simp
  have "uint t = sint t mod 2 ^ 64"
    by (simp add: uint_sint take_bit_eq_mod)
  also have "\<dots> = (sint t + 2 ^ 64) mod 2 ^ 64"
    by simp
  also have "\<dots> = sint t + 2 ^ 64"
    using lo assms by (intro mod_pos_pos_trivial) simp_all
  finally show ?thesis by simp
qed

lemma pause_loop_None_iff:
  "(pause_loop ps tn th = None) = (\<forall>p \<in> set ps. p \<le> tn)"
  by (induction ps) (auto simp: not_less)

lemma uint_of_nonnegative:
  fixes p :: "64 word"
  assumes "0 \<le> sint p"
  shows "uint p < 2 ^ 63"
proof -
  have hi: "sint p < 2 ^ 63"
    using sint_lt [of p] by simp
  have "uint p = sint p mod 2 ^ 64"
    by (simp add: uint_sint take_bit_eq_mod)
  also have "\<dots> = sint p"
    using assms hi by (intro mod_pos_pos_trivial) simp_all
  finally show ?thesis
    using hi by simp
qed

lemma GCMaxPauseCheck_succeeds_iff:
  "(fst (GCMaxPauseCheck threshold ctx w) = None) =
     (\<forall>pause \<in> set (runtime_PauseNs w). uint pause \<le> uint threshold)"
  by (simp add: GCMaxPauseCheck_def Nanoseconds_def pause_loop_None_iff word_le_def)

text \<open>
  C9. For every negative threshold the conversion to \<open>uint64\<close> wraps modulo \<open>2 ^ 64\<close>:
  it gives \<open>2 ^ 64\<close> plus the (negative) number of nanoseconds, a value of at least
  \<open>2 ^ 63\<close>. The check then succeeds whatever pauses the runtime has recorded, a
  recorded pause being a non-negative \<open>int64\<close> count of nanoseconds (the source reads it
  as a \<open>time.Duration\<close>), which is below \<open>2 ^ 63\<close>.
\<close>

theorem GCMaxPauseCheck_negative_threshold:
  fixes threshold :: Duration
  assumes "sint threshold < 0"
    and "\<forall>pause \<in> set (runtime_PauseNs w). 0 \<le> sint pause"
  shows "uint (Nanoseconds threshold) = 2 ^ 64 + sint threshold
   \<and> 2 ^ 63 \<le> uint (Nanoseconds threshold)
   \<and> fst (GCMaxPauseCheck threshold ctx w) = None"
proof -
  have u: "uint threshold = 2 ^ 64 + sint threshold"
    using assms(1) by (rule uint_of_negative)
  have lo: "- (2 ^ 63) \<le> sint threshold"
    using sint_ge [of threshold] by simp
  have big: "2 ^ 63 \<le> uint threshold"
    using u lo by simp
  have "uint pause \<le> uint threshold" if "pause \<in> set (runtime_PauseNs w)" for pause
  proof -
    from that assms(2) have "0 \<le> sint pause" by blast
    then have "uint pause < 2 ^ 63" by (rule uint_of_nonnegative)
    with big show ?thesis by simp
  qed
  then have "fst (GCMaxPauseCheck threshold ctx w) = None"
    by (simp add: GCMaxPauseCheck_succeeds_iff)
  with u big show ?thesis
    by (simp add: Nanoseconds_def)
qed

theorem GCMaxPauseCheck_negative_threshold_witness:
  "sint (- 2 :: Duration) < 0
   \<and> runtime_PauseNs example_world = 250000 # replicate 255 0
   \<and> 0 \<le> sint (250000 :: uint64) \<and> 0 \<le> sint (0 :: uint64)
   \<and> uint (Nanoseconds (- 2)) = 18446744073709551614
   \<and> fst (GCMaxPauseCheck (- 2) Background example_world) = None"
proof -
  have neg: "sint (- 2 :: Duration) < 0"
    by simp
  have pauses: "\<forall>pause \<in> set (runtime_PauseNs example_world). 0 \<le> sint pause"
    by (simp add: example_world_def)
  from GCMaxPauseCheck_negative_threshold [OF neg pauses, of Background] neg
  show ?thesis by (simp add: example_world_def)
qed

subsection \<open>The context of the database and DNS checks\<close>

text \<open>
  C3, as stated, fails: handed a context that is already cancelled and past its
  deadline, both checks still call their collaborator, under a context that is not
  cancelled and whose deadline is one second ahead, and succeed.
\<close>

theorem probe_ignores_passed_context:
  "Done \<lparr>deadline = Some 0, canceled = True\<rparr> (time_Now example_world)
   \<and> DatabasePingCheck (Some 0) Second \<lparr>deadline = Some 0, canceled = True\<rparr> example_world =
       (None, [PingContext_call 0 \<lparr>deadline = Some 1000000005, canceled = False\<rparr>])
   \<and> DNSResolveCheck ''example.org'' Second \<lparr>deadline = Some 0, canceled = True\<rparr> example_world =
       (None, [LookupHost_call \<lparr>deadline = Some 1000000005, canceled = False\<rparr> ''example.org''])"
  by (simp add: DatabasePingCheck_def DNSResolveCheck_def example_world_def Done_def
      context_WithTimeout_def Background_def Second_def Let_def)

text \<open>
  C3, amended. For every check that \<open>DatabasePingCheck\<close> or \<open>DNSResolveCheck\<close> returns,
  the context the probe's work runs under is derived from the background context with
  the check's own timeout and not from the context passed in: it is not cancelled, its
  deadline is the time of the call plus the timeout, so that it is done exactly from
  that time on, and the outcome of the check and the calls it makes are the same for
  every context passed in.
\<close>

theorem probe_context_from_Background:
  "DatabasePingCheck database timeout ctx w = DatabasePingCheck database timeout Background w
   \<and> DNSResolveCheck host timeout ctx w = DNSResolveCheck host timeout Background w
   \<and> DatabasePingCheck (Some db) timeout ctx w =
       (sql_PingContext w db (context_WithTimeout Background (time_Now w) timeout),
        [PingContext_call db (context_WithTimeout Background (time_Now w) timeout)])
   \<and> snd (DNSResolveCheck host timeout ctx w) =
       [LookupHost_call (context_WithTimeout Background (time_Now w) timeout) host]
   \<and> context_WithTimeout Background (time_Now w) timeout =
       \<lparr>deadline = Some (time_Now w + sint timeout), canceled = False\<rparr>
   \<and> Done (context_WithTimeout Background (time_Now w) timeout) t =
       (time_Now w + sint timeout \<le> t)"
  by (simp add: DatabasePingCheck_def DNSResolveCheck_def context_WithTimeout_def
      Background_def Done_def Let_def)

section \<open>Properties of the configuration\<close>

subsection \<open>Appending to a slice\<close>

lemma append_slice_elems:
  assumes "wf_slice st s" and "append_slice s x st = (s', st')"
  shows "slice_elems st' s' = slice_elems st s @ [Some x]"
  using assms
  by (auto simp: wf_slice_def append_slice_def slice_elems_def Let_def
        take_Suc_conv_app_nth split: if_splits)

lemma append_slice_wf:
  assumes "wf_slice st s" and "append_slice s x st = (s', st')"
  shows "wf_slice st' s'"
  using assms
  by (auto simp: wf_slice_def append_slice_def growcap_def Let_def split: if_splits)

lemma append_slice_frame:
  assumes "wf_slice st s0" and "wf_slice st s" and "behind s0 s"
    and "append_slice s x st = (s', st')"
  shows "slice_elems st' s0 = slice_elems st s0 \<and> wf_slice st' s0 \<and> behind s0 s'"
  using assms
  by (auto simp: wf_slice_def append_slice_def slice_elems_def behind_def Let_def
        nth_append nth_list_update split: if_splits)

lemma stdout_frame:
  "slice_elems (st\<lparr>stdout := out\<rparr>) s = slice_elems st s"
  "wf_slice (st\<lparr>stdout := out\<rparr>) s = wf_slice st s"
  by (simp_all add: slice_elems_def wf_slice_def)

lemma AddCheck_options:
  assumes "wf_slice st (checkers c)"
  shows "config_options (AddCheck check (c, st)) = config_options (c, st) @ [Some check]"
proof -
  obtain s' st' where a: "append_slice (checkers c) check st = (s', st')"
    by (cases "append_slice (checkers c) check st")
  from append_slice_elems [OF assms a] a show ?thesis
    by (simp add: AddCheck_def config_options_def)
qed

lemma AddDatabaseCheck_options:
  assumes "wf_slice st (checkers c)"
  shows "config_options (AddDatabaseCheck db (c, st)) =
     config_options (c, st) @
       [Some (health_WithCheck \<lparr>Name = ''database'', Timeout = 2000000000,
                               Check = DatabasePingCheck db 1000000000\<rparr>)]"
proof -
  let ?st = "st\<lparr>stdout := stdout st @ [''Check database health'']\<rparr>"
  have "wf_slice ?st (checkers c)"
    using assms by (simp add: stdout_frame)
  from AddCheck_options [OF this] show ?thesis
    by (simp add: AddDatabaseCheck_def Let_def Second_def config_options_def stdout_frame)
qed

lemma AddCheck_inv:
  assumes "wf_slice st s0" and "wf_slice st (checkers c)" and "behind s0 (checkers c)"
    and "AddCheck check (c, st) = (c', st')"
  shows "slice_elems st' s0 = slice_elems st s0 \<and> wf_slice st' s0 \<and>
         wf_slice st' (checkers c') \<and> behind s0 (checkers c')"
proof -
  obtain s1 st1 where a: "append_slice (checkers c) check st = (s1, st1)"
    by (cases "append_slice (checkers c) check st")
  with assms(4) have eq: "c' = c\<lparr>checkers := s1\<rparr>" "st' = st1"
    by (auto simp: AddCheck_def)
  from append_slice_frame [OF assms(1-3) a] append_slice_wf [OF assms(2) a] eq
  show ?thesis by simp
qed

lemma AddDatabaseCheck_inv:
  assumes "wf_slice st s0" and "wf_slice st (checkers c)" and "behind s0 (checkers c)"
    and "AddDatabaseCheck db (c, st) = (c', st')"
  shows "slice_elems st' s0 = slice_elems st s0 \<and> wf_slice st' s0 \<and>
         wf_slice st' (checkers c') \<and> behind s0 (checkers c')"
proof -
  let ?st = "st\<lparr>stdout := stdout st @ [''Check database health'']\<rparr>"
  from assms(4) obtain check where a: "AddCheck check (c, ?st) = (c', st')"
    by (simp add: AddDatabaseCheck_def Let_def)
  have "wf_slice ?st s0" "wf_slice ?st (checkers c)"
    using assms(1,2) by (simp_all add: stdout_frame)
  from AddCheck_inv [OF this assms(3) a] show ?thesis
    by (simp add: stdout_frame)
qed

lemma run_setup_inv:
  assumes "wf_slice st s0" and "wf_slice st (checkers c)" and "behind s0 (checkers c)"
  shows "slice_elems (snd (run_setup calls (c, st))) s0 = slice_elems st s0"
  using assms
proof (induction calls arbitrary: c st)
  case Nil
  then show ?case by simp
next
  case (Cons call calls)
  show ?case
  proof (cases call)
    case (AddCheck_call check)
    obtain c' st' where a: "AddCheck check (c, st) = (c', st')"
      by (cases "AddCheck check (c, st)")
    from AddCheck_inv [OF Cons.prems a] Cons.IH [of st' c'] a AddCheck_call
    show ?thesis by simp
  next
    case (AddDatabaseCheck_call db)
    obtain c' st' where a: "AddDatabaseCheck db (c, st) = (c', st')"
      by (cases "AddDatabaseCheck db (c, st)")
    from AddDatabaseCheck_inv [OF Cons.prems a] Cons.IH [of st' c'] a AddDatabaseCheck_call
    show ?thesis by simp
  qed
qed

lemma check_names_append:
  "check_names (xs @ ys) = check_names xs @ check_names ys"
  by (induction xs rule: check_names.induct) simp_all

lemma InitChecker_options:
  "config_options (InitChecker st) =
     [Some (health_WithCacheDuration 1000000000),
      Some (health_WithTimeout 10000000000),
      Some (health_WithCheck \<lparr>Name = ''goroutine-threshold'', Timeout = 2000000000,
                              Check = GoroutineCountCheck 100\<rparr>),
      Some (health_WithStatusListener status_listener)]"
  by (simp add: InitChecker_def make_slice_def AddCheck_def append_slice_def
      config_options_def slice_elems_def Second_def Let_def eval_nat_numeral)

lemma InitChecker_wf:
  "wf_slice (snd (InitChecker st)) (checkers (fst (InitChecker st)))"
  by (simp add: InitChecker_def make_slice_def AddCheck_def append_slice_def
      wf_slice_def Let_def)

subsection \<open>The default configuration\<close>

text \<open>
  C2. From any store, \<open>InitChecker\<close> returns a configuration of exactly four options, in
  this order: a cache duration of 1 second, a global timeout of 10 seconds, the check
  named \<open>goroutine-threshold\<close> with a timeout of 2 seconds running
  \<open>GoroutineCountCheck(100)\<close>, and a status listener, which logs the new status.
\<close>

theorem InitChecker_defaults:
  "config_options (InitChecker st) =
     [Some (health_WithCacheDuration 1000000000),
      Some (health_WithTimeout 10000000000),
      Some (health_WithCheck \<lparr>Name = ''goroutine-threshold'', Timeout = 2000000000,
                              Check = GoroutineCountCheck 100\<rparr>),
      Some (health_WithStatusListener status_listener)]
   \<and> sint (1000000000 :: Duration) = 10 ^ 9
   \<and> sint (10000000000 :: Duration) = 10 * 10 ^ 9
   \<and> sint (2000000000 :: Duration) = 2 * 10 ^ 9
   \<and> status_listener ctx \<lparr>Status = s\<rparr> lg = lg @ [''health status changed to '' @ s]"
  by (simp add: InitChecker_options status_listener_def)

subsection \<open>Duplicate check names\<close>

text \<open>
  C4, as stated, fails: after \<open>InitChecker\<close>, two calls of \<open>AddDatabaseCheck\<close> both go
  through, and the configuration holds two checks named \<open>database\<close>.
\<close>

theorem duplicate_database_check_accepted:
  "check_names (config_options
     (AddDatabaseCheck (Some 0) (AddDatabaseCheck (Some 0) (InitChecker empty_store)))) =
     [''goroutine-threshold'', ''database'', ''database'']
   \<and> \<not> distinct (check_names (config_options
     (AddDatabaseCheck (Some 0) (AddDatabaseCheck (Some 0) (InitChecker empty_store)))))"
  by (simp add: InitChecker_def make_slice_def AddCheck_def AddDatabaseCheck_def append_slice_def
      config_options_def slice_elems_def empty_store_def Let_def eval_nat_numeral)

text \<open>
  C4, amended. \<open>AddCheck\<close> and \<open>AddDatabaseCheck\<close> reject nothing: on every well-formed
  configuration \<open>AddCheck\<close> appends the option it is given, whatever its name, and
  \<open>AddDatabaseCheck\<close> appends a check named \<open>database\<close>, also when the configuration
  already holds one; the options and names added before stay as they were.
\<close>

theorem AddCheck_never_rejects:
  assumes "wf_slice st (checkers c)"
  shows "config_options (AddCheck check (c, st)) = config_options (c, st) @ [Some check]
   \<and> config_options (AddDatabaseCheck db (c, st)) =
       config_options (c, st) @
         [Some (health_WithCheck \<lparr>Name = ''database'', Timeout = 2000000000,
                                 Check = DatabasePingCheck db 1000000000\<rparr>)]
   \<and> check_names (config_options (AddDatabaseCheck db (c, st))) =
       check_names (config_options (c, st)) @ [''database'']"
  using assms by (simp add: AddCheck_options AddDatabaseCheck_options check_names_append)

theorem AddCheck_never_rejects_witness:
  "wf_slice (snd (AddDatabaseCheck None (InitChecker empty_store)))
     (checkers (fst (AddDatabaseCheck None (InitChecker empty_store))))
   \<and> check_names (config_options
       (AddDatabaseCheck (Some 7) (AddDatabaseCheck None (InitChecker empty_store)))) =
     [''goroutine-threshold'', ''database'', ''database'']"
proof -
  have wf: "wf_slice (snd (AddDatabaseCheck None (InitChecker empty_store)))
     (checkers (fst (AddDatabaseCheck None (InitChecker empty_store))))"
    by (simp add: InitChecker_def make_slice_def AddCheck_def AddDatabaseCheck_def
        append_slice_def wf_slice_def empty_store_def Let_def)
  have pre: "check_names (config_options (AddDatabaseCheck None (InitChecker empty_store))) =
     [''goroutine-threshold'', ''database'']"
    by (simp add: InitChecker_def make_slice_def AddCheck_def AddDatabaseCheck_def
        append_slice_def config_options_def slice_elems_def empty_store_def Let_def
        eval_nat_numeral)
  from AddCheck_never_rejects [OF wf, of "health_WithTimeout 5" "Some 7"] pre wf
  show ?thesis by (simp add: check_names_append)
qed

subsection \<open>The handler and later additions\<close>

text \<open>
  C5. Once \<open>GetCheckerHandler\<close> has returned a handler for a well-formed configuration,
  no run of \<open>AddCheck\<close> and \<open>AddDatabaseCheck\<close> calls on that configuration changes the
  options the handler was built from: an append either writes behind the last element
  of the slice the handler holds or moves to a fresh backing array.
\<close>

theorem handler_options_frozen:
  assumes "wf_slice st (checkers c)"
  shows "handler_options (snd (run_setup calls (c, st))) (GetCheckerHandler c) =
         handler_options st (GetCheckerHandler c)"
  using assms
  by (simp add: handler_options_def GetCheckerHandler_def run_setup_inv behind_def)

theorem handler_options_frozen_witness:
  "wf_slice (snd (InitChecker empty_store)) (checkers (fst (InitChecker empty_store)))
   \<and> length (handler_options
       (snd (run_setup [AddDatabaseCheck_call None, AddCheck_call (health_WithTimeout 5)]
              (InitChecker empty_store)))
       (GetCheckerHandler (fst (InitChecker empty_store)))) = 4
   \<and> length (config_options
       (run_setup [AddDatabaseCheck_call None, AddCheck_call (health_WithTimeout 5)]
              (InitChecker empty_store))) = 6"
proof -
  have wf: "wf_slice (snd (InitChecker empty_store)) (checkers (fst (InitChecker empty_store)))"
    by (rule InitChecker_wf)
  have h: "handler_options (snd (InitChecker empty_store))
      (GetCheckerHandler (fst (InitChecker empty_store))) = config_options (InitChecker empty_store)"
    by (simp add: handler_options_def GetCheckerHandler_def config_options_def case_prod_unfold)
  have six: "length (config_options
       (run_setup [AddDatabaseCheck_call None, AddCheck_call (health_WithTimeout 5)]
              (InitChecker empty_store))) = 6"
    by (simp add: InitChecker_def make_slice_def AddCheck_def AddDatabaseCheck_def
        append_slice_def config_options_def slice_elems_def empty_store_def Let_def
        eval_nat_numeral)
  from handler_options_frozen [OF wf,
      of "[AddDatabaseCheck_call None, AddCheck_call (health_WithTimeout 5)]"]
    h six wf
  show ?thesis by (simp add: InitChecker_options)
qed

subsection \<open>A nil database\<close>

text \<open>
  C10. For every timeout, context and world, the check that \<open>DatabasePingCheck\<close> returns
  for a nil database fails with \<open>database is nil\<close> and makes no call on the handle; and
  \<open>AddDatabaseCheck\<close> with a nil database appends, to every well-formed configuration,
  the check named \<open>database\<close> that runs exactly this function.
\<close>

theorem DatabasePingCheck_nil_database:
  assumes "wf_slice st (checkers c)"
  shows "DatabasePingCheck None timeout ctx w = (Some (Errorf ''database is nil'' []), [])
   \<and> last (config_options (AddDatabaseCheck None (c, st))) =
       Some (health_WithCheck \<lparr>Name = ''database'', Timeout = 2000000000,
                               Check = DatabasePingCheck None 1000000000\<rparr>)"
  using assms by (simp add: AddDatabaseCheck_options DatabasePingCheck_def)

theorem DatabasePingCheck_nil_database_witness:
  "wf_slice (snd (InitChecker empty_store)) (checkers (fst (InitChecker empty_store)))
   \<and> DatabasePingCheck None Second Background example_world =
       (Some (Errorf ''database is nil'' []), [])
   \<and> last (config_options (AddDatabaseCheck None (InitChecker empty_store))) =
       Some (health_WithCheck \<lparr>Name = ''database'', Timeout = 2000000000,
                               Check = DatabasePingCheck None 1000000000\<rparr>)"
proof -
  have wf: "wf_slice (snd (InitChecker empty_store)) (checkers (fst (InitChecker empty_store)))"
    by (rule InitChecker_wf)
  from DatabasePingCheck_nil_database [OF wf, of Second Background example_world] wf
  show ?thesis by simp
qed

end
